theory Spec2Isabelle
  imports Main "HOL-Library.Word"
begin

unbundle bit_operations_syntax

section \<open>Buffers, errors and the library functions the code calls\<close>

text \<open>
  A Node \<open>Buffer\<close> is a list of bytes.  JavaScript numbers that hold sizes, offsets and
  counts are natural numbers (all of them stay far below \<open>2^53\<close>); where the source
  applies a 32-bit operator (\<open>>>\<close>, \<open><<\<close>, \<open>&\<close>) the conversion to a 32-bit word is
  written out.
\<close>

type_synonym byte = "8 word"
type_synonym buffer = "byte list"

text \<open>
  Every \<open>throw\<close> of the source and every exception of a library call it makes is a value.
  \<open>InvalidVersion\<close>, \<open>InvalidDirectoryEntry\<close> and \<open>InvalidBinaryEntry\<close> are the three
  \<open>new Error(...)\<close> of \<open>rpf.ts\<close>; \<open>TypeError\<close> is a property write on \<open>undefined\<close>,
  \<open>RangeError\<close> a \<open>DataView\<close> read outside its buffer, \<open>ENOENT\<close> a failing
  \<open>fs.openSync\<close>, \<open>ZlibError\<close> a failing \<open>zlib.inflateSync\<close>.
\<close>

datatype error =
    InvalidVersion
  | InvalidDirectoryEntry
  | InvalidBinaryEntry
  | TypeError
  | RangeError
  | ENOENT
  | ZlibError

text \<open>
  The functions of Node's \<open>crypto\<close> and \<open>zlib\<close> modules are not part of the repository;
  they are parameters of the model.  \<open>aes_decrypt key block\<close> is
  \<open>createDecipheriv('aes-128-ecb', key, null)\<close> with padding off, applied to one block
  (\<open>update\<close> followed by \<open>final\<close>); \<open>aes_encrypt\<close> is \<open>createCipheriv\<close> likewise;
  \<open>sha256\<close> is \<open>createHash('sha256')\<close> over the concatenated updates; \<open>inflateSync\<close> is
  \<open>zlib.inflateSync\<close>.
\<close>

record nodeLib =
  aes_decrypt :: "buffer \<Rightarrow> buffer \<Rightarrow> buffer"
  aes_encrypt :: "buffer \<Rightarrow> buffer \<Rightarrow> buffer"
  sha256 :: "buffer \<Rightarrow> buffer"
  inflateSync :: "buffer \<Rightarrow> error + buffer"

text \<open>\<open>Buffer.alloc(n)\<close>: \<open>n\<close> zero bytes.\<close>

definition alloc :: "nat \<Rightarrow> buffer" where
  "alloc n = replicate n 0"

text \<open>
  \<open>source.copy(target, targetStart, sourceStart, sourceEnd)\<close>: the bytes
  \<open>source[sourceStart .. sourceEnd)\<close>, cut to what the source holds and to what fits
  into the target, overwrite the target from \<open>targetStart\<close> on.  The model returns the
  target after the call.
\<close>

definition copy :: "buffer \<Rightarrow> buffer \<Rightarrow> nat \<Rightarrow> nat \<Rightarrow> nat \<Rightarrow> buffer" where
  "copy source target targetStart sourceStart sourceEnd =
     (let chunk = take (length target - targetStart)
                    (take (sourceEnd - sourceStart) (drop sourceStart source))
      in take targetStart target @ chunk @ drop (targetStart + length chunk) target)"

text \<open>
  \<open>x >> s\<close> of JavaScript for a non-negative integer \<open>x\<close>: \<open>x\<close> is taken modulo \<open>2^32\<close>
  and read as a signed 32-bit integer, which is then shifted with sign propagation.
\<close>

definition toInt32 :: "nat \<Rightarrow> 32 word" where
  "toInt32 x = word_of_nat x"

definition sar :: "nat \<Rightarrow> nat \<Rightarrow> int" where
  "sar x s = sint (signed_drop_bit (s mod 32) (toInt32 x))"

section \<open>crypto.ts: the AES wrapper\<close>

definition PC_AES_KEY :: buffer where
  "PC_AES_KEY = [0x1A, 0x94, 0x6D, 0xBC, 0x73, 0xB8, 0x5E, 0x42,
                 0x0B, 0x79, 0x45, 0x8C, 0x65, 0x00, 0x56, 0x7E]"

text \<open>
  The loop \<open>for (let i = 0; i < rounds; i++)\<close> shared by \<open>decryptAES\<close> and \<open>encryptAES\<close>;
  \<open>cipher\<close> is the block operation, \<open>out\<close> the buffer being filled.
\<close>

function aesLoop :: "(buffer \<Rightarrow> buffer) \<Rightarrow> buffer \<Rightarrow> int \<Rightarrow> nat \<Rightarrow> buffer \<Rightarrow> buffer" where
  "aesLoop cipher data rounds i out =
     (if int i < rounds then
        (let offset = i * 16;
             blockSize = min 16 (length data - offset)
         in if blockSize = 16
            then aesLoop cipher data rounds (i + 1)
                   (let block = take 16 (drop offset data);
                        processed = cipher block
                    in copy processed out offset 0 (length processed))
            else aesLoop cipher data rounds (i + 1)
                   (copy data out offset offset (offset + blockSize)))
      else out)"
  by pat_completeness auto
termination
  by (relation "measure (\<lambda>(cipher, data, rounds, i, out). nat (rounds - int i))") auto

definition decryptAES :: "nodeLib \<Rightarrow> buffer \<Rightarrow> buffer" where
  "decryptAES lib data =
     (let rounds = sar (length data + 15) 4;
          decrypted = alloc (length data)
      in aesLoop (aes_decrypt lib PC_AES_KEY) data rounds 0 decrypted)"

definition encryptAES :: "nodeLib \<Rightarrow> buffer \<Rightarrow> buffer" where
  "encryptAES lib data =
     (let rounds = sar (length data + 15) 4;
          encrypted = alloc (length data)
      in aesLoop (aes_encrypt lib PC_AES_KEY) data rounds 0 encrypted)"

section \<open>crypto.ts: the NG wrapper\<close>

text \<open>
  Names are strings of 8-bit characters.  \<open>toLowerCase\<close> is JavaScript's on the ASCII
  letters; \<open>utf8\<close> is the byte sequence \<open>hash.update\<close> feeds to the digest.
\<close>

definition toLowerChar :: "char \<Rightarrow> char" where
  "toLowerChar c =
     (case map_of (zip ''ABCDEFGHIJKLMNOPQRSTUVWXYZ'' ''abcdefghijklmnopqrstuvwxyz'') c of
        Some l \<Rightarrow> l
      | None \<Rightarrow> c)"

definition toLowerCase :: "string \<Rightarrow> string" where
  "toLowerCase s = map toLowerChar s"

definition utf8 :: "string \<Rightarrow> buffer" where
  "utf8 s = map of_char s"

text \<open>
  \<open>Buffer.from([size & 0xFF, (size >> 8) & 0xFF, (size >> 16) & 0xFF, (size >> 24) & 0xFF])\<close>
\<close>

definition sizeBytes :: "nat \<Rightarrow> buffer" where
  "sizeBytes sz =
     [ucast (toInt32 sz AND 0xFF),
      ucast (signed_drop_bit 8 (toInt32 sz) AND 0xFF),
      ucast (signed_drop_bit 16 (toInt32 sz) AND 0xFF),
      ucast (signed_drop_bit 24 (toInt32 sz) AND 0xFF)]"

definition generateNGKey :: "nodeLib \<Rightarrow> string \<Rightarrow> nat \<Rightarrow> buffer" where
  "generateNGKey lib name sz = sha256 lib (utf8 (toLowerCase name) @ sizeBytes sz)"

text \<open>
  \<open>key[i % key.length]\<close>; for an empty key the index is \<open>NaN\<close>, the read is \<open>undefined\<close>
  and the XOR is with 0.
\<close>

definition keyByte :: "buffer \<Rightarrow> nat \<Rightarrow> byte" where
  "keyByte key i = (if key = [] then 0 else key ! (i mod length key))"

definition decryptNG :: "nodeLib \<Rightarrow> buffer \<Rightarrow> string \<Rightarrow> nat \<Rightarrow> buffer" where
  "decryptNG lib data name sz =
     (let key = generateNGKey lib name sz
      in map (\<lambda>i. (data ! i) XOR keyByte key i) [0..<length data])"


section \<open>rpf.ts: entries and their 16-byte records\<close>

text \<open>
  The three entry classes share one record: \<open>kind\<close> is the runtime class that
  \<open>instanceof\<close> tests, the fields of the other classes keep the values of the class
  initialisers.  Entries live in the archive's \<open>allEntries\<close> array; a reference to an
  entry (\<open>parent\<close>, the members of \<open>directories\<close> and \<open>files\<close>, the archive's
  \<open>root\<close>) is the entry's index in that array, and an assignment to a field of an
  entry is an update of the array at that index.  The back-references \<open>entry.file\<close> and
  \<open>RpfFile.parent\<close> are written but never read by the code and are left out.
\<close>

datatype entryKind = DirectoryEntry | BinaryFileEntry | ResourceFileEntry

record RpfEntry =
  kind :: entryKind
  nameOffset :: nat
  name :: string
  nameLower :: string
  path :: string
  parent :: "nat option"
  entriesIndex :: nat
  entriesCount :: nat
  directories :: "nat list"
  files :: "nat list"
  fileOffset :: nat
  fileSize :: nat
  fileUncompressedSize :: nat
  isEncrypted :: bool
  encryptionType :: nat
  systemFlags :: nat
  graphicsFlags :: nat

definition newEntry :: "entryKind \<Rightarrow> RpfEntry" where
  "newEntry k =
     \<lparr>kind = k, nameOffset = 0, name = [], nameLower = [], path = [], parent = None,
      entriesIndex = 0, entriesCount = 0, directories = [], files = [],
      fileOffset = 0, fileSize = 0, fileUncompressedSize = 0, isEncrypted = False,
      encryptionType = 0, systemFlags = 0, graphicsFlags = 0\<rparr>"

text \<open>A \<open>throw\<close> ends the computation: the rest runs only on a value.\<close>

definition bindE :: "error + 'a \<Rightarrow> ('a \<Rightarrow> error + 'b) \<Rightarrow> error + 'b" where
  "bindE m f = (case m of Inl e \<Rightarrow> Inl e | Inr x \<Rightarrow> f x)"

text \<open>
  \<open>DataView\<close> reads, little-endian; a read that does not fit into the buffer throws a
  \<open>RangeError\<close>.
\<close>

definition leNat :: "buffer \<Rightarrow> nat" where
  "leNat bs = foldr (\<lambda>b acc. unat b + 256 * acc) bs 0"

definition getUint32 :: "buffer \<Rightarrow> nat \<Rightarrow> error + nat" where
  "getUint32 view offset =
     (if offset + 4 \<le> length view then Inr (leNat (take 4 (drop offset view)))
      else Inl RangeError)"

definition getBigUint64 :: "buffer \<Rightarrow> nat \<Rightarrow> error + 64 word" where
  "getBigUint64 view offset =
     (if offset + 8 \<le> length view then Inr (word_of_nat (leNat (take 8 (drop offset view))))
      else Inl RangeError)"

text \<open>\<open>RpfDirectoryEntry.read\<close>\<close>

definition readDirectory :: "buffer \<Rightarrow> nat \<Rightarrow> error + RpfEntry" where
  "readDirectory data offset =
     bindE (getUint32 data offset) (\<lambda>nameOffset'.
     bindE (getUint32 data (offset + 4)) (\<lambda>h1.
     bindE (getUint32 data (offset + 8)) (\<lambda>h2.
     bindE (getUint32 data (offset + 12)) (\<lambda>h3.
       if h3 \<noteq> 0x7FFFFF00 then Inl InvalidDirectoryEntry
       else Inr ((newEntry DirectoryEntry)
                   \<lparr>nameOffset := nameOffset', entriesIndex := h1, entriesCount := h2\<rparr>)))))"

text \<open>\<open>RpfBinaryFileEntry.read\<close>; the shifts and masks are on \<open>BigInt\<close>s below \<open>2^64\<close>.\<close>

definition readBinary :: "buffer \<Rightarrow> nat \<Rightarrow> error + RpfEntry" where
  "readBinary data offset =
     bindE (getBigUint64 data offset) (\<lambda>d1.
     bindE (getBigUint64 data (offset + 8)) (\<lambda>d2.
       if drop_bit 32 d2 \<noteq> 0 then Inl InvalidBinaryEntry
       else
         (let encryptionType' = unat (drop_bit 24 d2 AND 0xFF)
          in Inr ((newEntry BinaryFileEntry)
                    \<lparr>nameOffset := unat (drop_bit 0 d1 AND 0xFFFF),
                     fileSize := unat (drop_bit 16 d1 AND 0xFFFFFF),
                     fileOffset := unat (drop_bit 40 d1 AND 0xFFFFFF),
                     fileUncompressedSize := unat (drop_bit 0 d2 AND 0xFFFFFF),
                     encryptionType := encryptionType',
                     isEncrypted := (encryptionType' \<noteq> 0)\<rparr>))))"

text \<open>
  \<open>RpfResourceFileEntry.getResourceSize\<close>.  \<open>>>\<close>, \<open>&\<close> and \<open><<\<close> work on the flags
  converted to signed 32-bit integers; the five results are added as numbers.
\<close>

definition shl :: "32 word \<Rightarrow> 32 word \<Rightarrow> int" where
  "shl a b = sint (push_bit (unat b mod 32) a)"

definition getResourceSize :: "nat \<Rightarrow> nat \<Rightarrow> nat" where
  "getResourceSize systemFlags' graphicsFlags' =
     (let s = toInt32 systemFlags';
          g = toInt32 graphicsFlags';
          baseSize = (if signed_drop_bit 27 s AND 0x1 \<noteq> 0 then 0x10 else 0x0);
          virtualSize = shl (s AND 0x7FF) (signed_drop_bit 11 s AND 0xF);
          physicalSize = shl (signed_drop_bit 15 s AND 0x7F) (signed_drop_bit 25 s AND 0xF);
          virtualSizeGraphics = shl (g AND 0x7FF) (signed_drop_bit 11 g AND 0xF);
          physicalSizeGraphics = shl (signed_drop_bit 15 g AND 0x7F) (signed_drop_bit 25 g AND 0xF)
      in nat (baseSize + virtualSize + physicalSize + virtualSizeGraphics + physicalSizeGraphics))"

text \<open>\<open>RpfResourceFileEntry.read\<close>\<close>

definition readResource :: "buffer \<Rightarrow> nat \<Rightarrow> error + RpfEntry" where
  "readResource data offset =
     bindE (getBigUint64 data offset) (\<lambda>d1.
     bindE (getBigUint64 data (offset + 8)) (\<lambda>d2.
       (let e = (newEntry ResourceFileEntry)
                  \<lparr>nameOffset := unat (drop_bit 0 d1 AND 0xFFFF),
                   fileSize := unat (drop_bit 16 d1 AND 0xFFFFFF),
                   fileOffset := unat (drop_bit 40 d1 AND 0xFFFFFF),
                   systemFlags := unat (d2 AND 0xFFFFFFFF),
                   graphicsFlags := unat (drop_bit 32 d2 AND 0xFFFFFFFF)\<rparr>
        in if fileSize e = 0xFFFFFF
           then (let e' = e\<lparr>fileSize := getResourceSize (systemFlags e) (graphicsFlags e)\<rparr>
                 in Inr (e'\<lparr>fileUncompressedSize := fileSize e'\<rparr>))
           else Inr e)))"

text \<open>
  The body of the loop of \<open>parseEntries\<close> up to \<open>entry.read\<close>: the class is chosen by
  the 32-bit word at byte 8 of the record, then the record is read by that class.
\<close>

definition readEntry :: "buffer \<Rightarrow> nat \<Rightarrow> error + RpfEntry" where
  "readEntry entriesView offset =
     bindE (getUint32 entriesView (offset + 8)) (\<lambda>h2.
       if h2 = 0x7FFFFF00 then readDirectory entriesView offset
       else if toInt32 h2 AND 0x80000000 = 0 then readBinary entriesView offset
       else readResource entriesView offset)"

text \<open>
  \<open>readName\<close>: the bytes from \<open>offset\<close> up to the first NUL or the end of the buffer,
  as a string (\<open>toString('utf8', offset, end)\<close>; one character per byte).
\<close>

function readNameEnd :: "buffer \<Rightarrow> nat \<Rightarrow> nat" where
  "readNameEnd namesData end' =
     (if end' < length namesData \<and> namesData ! end' \<noteq> 0
      then readNameEnd namesData (end' + 1) else end')"
  by pat_completeness auto
termination
  by (relation "measure (\<lambda>(namesData, end'). length namesData - end')") auto

definition toString :: "buffer \<Rightarrow> nat \<Rightarrow> nat \<Rightarrow> string" where
  "toString buf start end' = map (\<lambda>b. char_of (unat b)) (take (end' - start) (drop start buf))"

definition readName :: "buffer \<Rightarrow> nat \<Rightarrow> string" where
  "readName namesData offset = toString namesData offset (readNameEnd namesData offset)"

text \<open>The loop of \<open>parseEntries\<close>; \<open>acc\<close> is \<open>this.allEntries\<close>.\<close>

function parseLoop :: "buffer \<Rightarrow> buffer \<Rightarrow> nat \<Rightarrow> nat \<Rightarrow> RpfEntry list \<Rightarrow> error + RpfEntry list" where
  "parseLoop entriesView namesData entryCount' i acc =
     (if i < entryCount' then
        (case readEntry entriesView (i * 16) of
           Inl e \<Rightarrow> Inl e
         | Inr entry \<Rightarrow>
             (let name' = readName namesData (nameOffset entry);
                  entry' = entry\<lparr>name := name', nameLower := toLowerCase name'\<rparr>
              in parseLoop entriesView namesData entryCount' (i + 1) (acc @ [entry'])))
      else Inr acc)"
  by pat_completeness auto
termination
  by (relation "measure (\<lambda>(entriesView, namesData, entryCount', i, acc). entryCount' - i)") auto

section \<open>rpf.ts: the hierarchy\<close>

text \<open>
  The body of the inner loop of \<open>buildHierarchy\<close> for the directory at index \<open>d\<close> and
  the child at index \<open>i\<close>: \<open>child.parent = dir\<close>, then the child is pushed to the
  directory's \<open>directories\<close> or \<open>files\<close>.
\<close>

definition linkChild :: "nat \<Rightarrow> nat \<Rightarrow> RpfEntry list \<Rightarrow> RpfEntry list" where
  "linkChild d i es =
     (let es1 = es[i := (es ! i)\<lparr>parent := Some d\<rparr>]
      in if kind (es1 ! i) = DirectoryEntry
         then es1[d := (es1 ! d)\<lparr>directories := directories (es1 ! d) @ [i]\<rparr>]
         else es1[d := (es1 ! d)\<lparr>files := files (es1 ! d) @ [i]\<rparr>])"

text \<open>
  The inner loop \<open>for (let i = startIdx; i < endIdx; i++)\<close>.  \<open>this.allEntries[i]\<close> is
  \<open>undefined\<close> beyond the array, and \<open>child.parent = dir\<close> throws a \<open>TypeError\<close> then.
\<close>

function linkChildren :: "nat \<Rightarrow> nat \<Rightarrow> nat \<Rightarrow> RpfEntry list \<Rightarrow> error + RpfEntry list" where
  "linkChildren d i endIdx es =
     (if i < endIdx then
        (if i < length es then linkChildren d (i + 1) endIdx (linkChild d i es)
         else Inl TypeError)
      else Inr es)"
  by pat_completeness auto
termination
  by (relation "measure (\<lambda>(d, i, endIdx, es). endIdx - i)") auto

text \<open>The outer loop \<open>for (const entry of this.allEntries)\<close>, over the indices.\<close>

fun linkAll :: "nat list \<Rightarrow> RpfEntry list \<Rightarrow> error + RpfEntry list" where
  "linkAll [] es = Inr es"
| "linkAll (d # ds) es =
     (if kind (es ! d) = DirectoryEntry then
        (let startIdx = entriesIndex (es ! d);
             endIdx = startIdx + entriesCount (es ! d)
         in case linkChildren d startIdx endIdx es of
              Inl e \<Rightarrow> Inl e
            | Inr es' \<Rightarrow> linkAll ds es')
      else linkAll ds es)"

text \<open>
  \<open>updatePaths\<close> follows the \<open>directories\<close> references and does not return when a
  directory reaches itself.  The first argument bounds the depth of the recursion;
  \<open>None\<close> says that the bound was reached.
\<close>

definition joinPath :: "string \<Rightarrow> string \<Rightarrow> string" where
  "joinPath currentPath name' =
     (if currentPath \<noteq> [] then currentPath @ [CHR 0x5C] @ name' else name')"

fun updatePaths :: "nat \<Rightarrow> RpfEntry list \<Rightarrow> nat \<Rightarrow> string \<Rightarrow> RpfEntry list option"
  and updateSubdirs :: "nat \<Rightarrow> RpfEntry list \<Rightarrow> nat list \<Rightarrow> string \<Rightarrow> RpfEntry list option"
where
  "updatePaths 0 es dir currentPath = None"
| "updatePaths (Suc depth) es dir currentPath =
     (case updateSubdirs depth es (directories (es ! dir)) currentPath of
        None \<Rightarrow> None
      | Some es' \<Rightarrow>
          Some (fold (\<lambda>file es''. es''[file := (es'' ! file)
                        \<lparr>path := joinPath currentPath (name (es'' ! file))\<rparr>])
                  (files (es' ! dir)) es'))"
| "updateSubdirs depth es [] currentPath = Some es"
| "updateSubdirs depth es (subdir # rest) currentPath =
     (let path' = joinPath currentPath (name (es ! subdir));
          es1 = es[subdir := (es ! subdir)\<lparr>path := path'\<rparr>]
      in case updatePaths depth es1 subdir path' of
           None \<Rightarrow> None
         | Some es2 \<Rightarrow> updateSubdirs depth es2 rest currentPath)"


section \<open>The file system\<close>

text \<open>
  A file system maps a path to the bytes of the file there.  \<open>fs.openSync\<close> throws for a
  path without a file.  \<open>readSync file length position\<close> is the buffer after
  \<open>buffer = Buffer.alloc(length); fs.readSync(fd, buffer, 0, length, position)\<close>: a
  positioned read stores the bytes the file holds from \<open>position\<close> on, at most
  \<open>length\<close> of them, and returns their number, which no caller in the code looks at; the
  rest of the buffer keeps the zeros of \<open>Buffer.alloc\<close>.
\<close>

type_synonym filesystem = "string \<Rightarrow> buffer option"

definition readSync :: "buffer \<Rightarrow> nat \<Rightarrow> nat \<Rightarrow> buffer" where
  "readSync file length' position =
     copy (drop position file) (alloc length') 0 0 length'"

section \<open>rpf.ts: archives\<close>

text \<open>
  The fields of \<open>RpfFile\<close>; \<open>fileSize\<close> of the class is \<open>rpfFileSize\<close> here, since the
  entries have a field of that name.  An archive together with the archives nested in it
  is a tree.
\<close>

record RpfInfo =
  filePath :: string
  fileName :: string
  rpfFileSize :: nat
  startPos :: nat
  version :: nat
  encryption :: nat
  entryCount :: nat
  namesLength :: nat
  isAESEncrypted :: bool
  isNGEncrypted :: bool
  allEntries :: "RpfEntry list"
  root :: "nat option"

datatype RpfFile = RpfFile (info: RpfInfo) (children: "RpfFile list")

text \<open>\<open>enum RpfEncryption\<close>\<close>

definition NONE :: nat where "NONE = 0x0"
definition OPEN :: nat where "OPEN = 0x4E45504F"
definition AES :: nat where "AES = 0x0FFFFFF9"
definition NG :: nat where "NG = 0x0FEFFFFF"

text \<open>
  The constructor: the size of the backing file is taken from \<open>fs.statSync\<close> and stays 0
  when that throws.
\<close>

definition newRpfFile :: "filesystem \<Rightarrow> string \<Rightarrow> string \<Rightarrow> nat \<Rightarrow> RpfInfo" where
  "newRpfFile fs filePath' fileName' startPos' =
     \<lparr>filePath = filePath', fileName = fileName',
      rpfFileSize = (case fs filePath' of None \<Rightarrow> 0 | Some file \<Rightarrow> length file),
      startPos = startPos', version = 0, encryption = NONE, entryCount = 0, namesLength = 0,
      isAESEncrypted = False, isNGEncrypted = False, allEntries = [], root = None\<rparr>"

text \<open>
  \<open>scanStructure\<close> from \<open>fs.openSync\<close> to the call of \<open>parseEntries\<close>: the archive with
  its header fields, and the decrypted entries and names tables.
\<close>

definition readTables :: "nodeLib \<Rightarrow> filesystem \<Rightarrow> RpfInfo \<Rightarrow> error + (RpfInfo \<times> buffer \<times> buffer)" where
  "readTables lib fs this =
     (case fs (filePath this) of
        None \<Rightarrow> Inl ENOENT
      | Some file \<Rightarrow>
          (let headerBuffer = readSync file 16 (startPos this)
           in bindE (getUint32 headerBuffer 0) (\<lambda>version'.
              bindE (getUint32 headerBuffer 4) (\<lambda>entryCount'.
              bindE (getUint32 headerBuffer 8) (\<lambda>namesLength'.
              bindE (getUint32 headerBuffer 12) (\<lambda>encryption'.
                if version' \<noteq> 0x52504637 then Inl InvalidVersion
                else
                  (let this' = this\<lparr>version := version', entryCount := entryCount',
                                     namesLength := namesLength', encryption := encryption',
                                     isAESEncrypted := (encryption' = AES),
                                     isNGEncrypted := (encryption' = NG)\<rparr>;
                       entriesSize = entryCount' * 16;
                       entriesBuffer = readSync file entriesSize (startPos this + 16);
                       namesBuffer = readSync file namesLength' (startPos this + 16 + entriesSize)
                   in if encryption' = AES then
                        Inr (this', decryptAES lib entriesBuffer, decryptAES lib namesBuffer)
                      else if encryption' = NG then
                        Inr (this',
                             decryptNG lib entriesBuffer (fileName this) (rpfFileSize this),
                             decryptNG lib namesBuffer (fileName this) (rpfFileSize this))
                      else Inr (this', entriesBuffer, namesBuffer))))))))"

text \<open>
  \<open>parseEntries\<close> with \<open>buildHierarchy\<close> up to the call of \<open>updatePaths\<close>: the entries
  are read and linked, entry 0 becomes the root when it is a directory, and the root's
  path is the path of the backing file.
\<close>

definition parseEntries :: "RpfInfo \<Rightarrow> buffer \<Rightarrow> buffer \<Rightarrow> error + RpfInfo" where
  "parseEntries this entriesData namesData =
     bindE (parseLoop entriesData namesData (entryCount this) 0 []) (\<lambda>es.
     bindE (linkAll [0..<length es] es) (\<lambda>es'.
       if length es' > 0 \<and> kind (es' ! 0) = DirectoryEntry
       then Inr (this\<lparr>allEntries := es'[0 := (es' ! 0)\<lparr>path := filePath this\<rparr>],
                       root := Some 0\<rparr>)
       else Inr (this\<lparr>allEntries := es'\<rparr>)))"

text \<open>\<open>this.updatePaths(this.root)\<close>, with the default \<open>currentPath = ""\<close>.\<close>

definition updateRootPaths :: "nat \<Rightarrow> RpfInfo \<Rightarrow> RpfInfo option" where
  "updateRootPaths depth this =
     (case root this of
        None \<Rightarrow> Some this
      | Some dir \<Rightarrow>
          (case updatePaths depth (allEntries this) dir [] of
             None \<Rightarrow> None
           | Some es \<Rightarrow> Some (this\<lparr>allEntries := es\<rparr>)))"

text \<open>\<open>findRpfFiles\<close>, with the depth of the recursion bounded as for \<open>updatePaths\<close>.\<close>

definition endsWith :: "string \<Rightarrow> string \<Rightarrow> bool" where
  "endsWith s suffix = (length suffix \<le> length s \<and> drop (length s - length suffix) s = suffix)"

fun findRpfFiles :: "nat \<Rightarrow> RpfEntry list \<Rightarrow> nat \<Rightarrow> nat list option"
  and findInSubdirs :: "nat \<Rightarrow> RpfEntry list \<Rightarrow> nat list \<Rightarrow> nat list option"
where
  "findRpfFiles 0 es dir = None"
| "findRpfFiles (Suc depth) es dir =
     (case findInSubdirs depth es (directories (es ! dir)) of
        None \<Rightarrow> None
      | Some found \<Rightarrow>
          Some (filter (\<lambda>file. endsWith (nameLower (es ! file)) ''.rpf'') (files (es ! dir))
                @ found))"
| "findInSubdirs depth es [] = Some []"
| "findInSubdirs depth es (subdir # rest) =
     (case findRpfFiles depth es subdir of
        None \<Rightarrow> None
      | Some found \<Rightarrow>
          (case findInSubdirs depth es rest of
             None \<Rightarrow> None
           | Some others \<Rightarrow> Some (found @ others)))"

text \<open>
  \<open>scanStructure\<close> and the loop of \<open>scanNestedRpfs\<close>.  An archive nested in itself
  makes the scan recurse without end, so the first argument bounds the depth of the
  recursion (of the scan and of the two walks over the directories), and \<open>None\<close> says
  that the bound was reached.  \<open>Some (Inl e)\<close> is a scan that throws \<open>e\<close>, \<open>Some (Inr a)\<close>
  a scan that returns with the archive \<open>a\<close>.  The loop returns the archives it pushes to
  \<open>this.children\<close>; a nested scan that throws is logged and skipped.
\<close>

fun scanStructure :: "nodeLib \<Rightarrow> filesystem \<Rightarrow> nat \<Rightarrow> string \<Rightarrow> string \<Rightarrow> nat \<Rightarrow> (error + RpfFile) option"
  and scanNestedLoop :: "nodeLib \<Rightarrow> filesystem \<Rightarrow> nat \<Rightarrow> RpfInfo \<Rightarrow> nat list \<Rightarrow> RpfFile list option"
where
  "scanStructure lib fs 0 filePath' fileName' startPos' = None"
| "scanStructure lib fs (Suc depth) filePath' fileName' startPos' =
     (case bindE (readTables lib fs (newRpfFile fs filePath' fileName' startPos'))
             (\<lambda>(this, entriesData, namesData). parseEntries this entriesData namesData) of
        Inl e \<Rightarrow> Some (Inl e)
      | Inr this \<Rightarrow>
          (case updateRootPaths depth this of
             None \<Rightarrow> None
           | Some this' \<Rightarrow>
               (case root this' of
                  None \<Rightarrow> Some (Inr (RpfFile this' []))
                | Some dir \<Rightarrow>
                    (case findRpfFiles depth (allEntries this') dir of
                       None \<Rightarrow> None
                     | Some rpfFiles \<Rightarrow>
                         (case scanNestedLoop lib fs depth this' rpfFiles of
                            None \<Rightarrow> None
                          | Some nested \<Rightarrow> Some (Inr (RpfFile this' nested)))))))"
| "scanNestedLoop lib fs depth this [] = Some []"
| "scanNestedLoop lib fs depth this (rpfEntry # rest) =
     (if kind (allEntries this ! rpfEntry) = BinaryFileEntry then
        (case scanStructure lib fs depth (filePath this)
                (name (allEntries this ! rpfEntry))
                (fileOffset (allEntries this ! rpfEntry) * 512) of
           None \<Rightarrow> None
         | Some (Inl e) \<Rightarrow> scanNestedLoop lib fs depth this rest
         | Some (Inr nestedRpf) \<Rightarrow>
             (case scanNestedLoop lib fs depth this rest of
                None \<Rightarrow> None
              | Some nested \<Rightarrow> Some (nestedRpf # nested)))
      else scanNestedLoop lib fs depth this rest)"

text \<open>\<open>findEntry\<close>: the path is split at \<open>/\<close> and \<open>\\<close>, and the parts are looked up in turn.\<close>

fun splitPath :: "string \<Rightarrow> string list" where
  "splitPath [] = [[]]"
| "splitPath (c # cs) =
     (if c = CHR ''/'' \<or> c = CHR 0x5C then [] # splitPath cs
      else (case splitPath cs of
              [] \<Rightarrow> [[c]]
            | part # parts \<Rightarrow> (c # part) # parts))"

definition findByName :: "RpfEntry list \<Rightarrow> nat list \<Rightarrow> string \<Rightarrow> nat option" where
  "findByName es candidates lowerPart =
     List.find (\<lambda>i. nameLower (es ! i) = lowerPart) candidates"

fun findEntryLoop :: "RpfEntry list \<Rightarrow> string list \<Rightarrow> nat option \<Rightarrow> nat option" where
  "findEntryLoop es [] current = current"
| "findEntryLoop es (part # parts) current =
     (case current of
        None \<Rightarrow> None
      | Some c \<Rightarrow>
          if kind (es ! c) \<noteq> DirectoryEntry then None
          else
            (let lowerPart = toLowerCase part
             in case findByName es (directories (es ! c)) lowerPart of
                  Some dir \<Rightarrow> findEntryLoop es parts (Some dir)
                | None \<Rightarrow> findEntryLoop es parts (findByName es (files (es ! c)) lowerPart)))"

definition findEntry :: "RpfInfo \<Rightarrow> string \<Rightarrow> nat option" where
  "findEntry this entryPath = findEntryLoop (allEntries this) (splitPath entryPath) (root this)"

text \<open>\<open>RpfFileEntry.getFileData\<close>\<close>

definition getFileData :: "nodeLib \<Rightarrow> filesystem \<Rightarrow> RpfEntry \<Rightarrow> RpfInfo \<Rightarrow> error + buffer" where
  "getFileData lib fs this rpf =
     (case fs (filePath rpf) of
        None \<Rightarrow> Inl ENOENT
      | Some file \<Rightarrow>
          (let fileOffset' = fileOffset this * 512;
               buffer = readSync file (fileSize this) (startPos rpf + fileOffset');
               result =
                 (if isEncrypted this then
                    (if isAESEncrypted rpf then decryptAES lib buffer
                     else if isNGEncrypted rpf then
                       decryptNG lib buffer (name this) (fileUncompressedSize this)
                     else buffer)
                  else buffer)
           in if fileUncompressedSize this > 0 \<and> fileUncompressedSize this \<noteq> fileSize this
              then inflateSync lib result
              else Inr result))"

section \<open>rpf-manager.ts: the registry\<close>

text \<open>
  The registry \<open>rpfFiles\<close> maps a path to an archive.  The walk over the directories of
  the disk (\<open>findRpfFiles\<close> of the manager) is outside the model: \<open>scanForRpfFiles\<close> takes
  the files it found, each with \<open>path.basename\<close> of its path and with its path relative
  to the root, forward slashes.
\<close>

type_synonym registry = "string \<Rightarrow> RpfFile option"

record foundRpf =
  rpfPath :: string
  baseName :: string
  relativePath :: string

text \<open>\<open>addNestedRpfs\<close>\<close>

fun addNestedRpfs :: "RpfFile \<Rightarrow> string \<Rightarrow> registry \<Rightarrow> registry" where
  "addNestedRpfs (RpfFile this nested) basePath rpfFiles =
     fold (\<lambda>child reg.
             (let nestedPath = basePath @ ''/'' @ fileName (info child);
                  reg' = reg(nestedPath \<mapsto> child)
              in if length (children child) > 0 then addNestedRpfs child nestedPath reg'
                 else reg'))
          nested rpfFiles"

text \<open>\<open>scanForRpfFiles\<close>: an archive whose scan throws is logged and left out.\<close>

fun scanForRpfFiles :: "nodeLib \<Rightarrow> filesystem \<Rightarrow> nat \<Rightarrow> foundRpf list \<Rightarrow> registry \<Rightarrow> registry option" where
  "scanForRpfFiles lib fs depth [] rpfFiles = Some rpfFiles"
| "scanForRpfFiles lib fs depth (f # rest) rpfFiles =
     (case scanStructure lib fs depth (rpfPath f) (baseName f) 0 of
        None \<Rightarrow> None
      | Some (Inl e) \<Rightarrow> scanForRpfFiles lib fs depth rest rpfFiles
      | Some (Inr rpfFile) \<Rightarrow>
          scanForRpfFiles lib fs depth rest
            (addNestedRpfs rpfFile (relativePath f) (rpfFiles(relativePath f \<mapsto> rpfFile))))"

text \<open>\<open>listDirectory\<close>; \<open>None\<close> is \<open>null\<close>.\<close>

definition listDirectory :: "registry \<Rightarrow> string \<Rightarrow> string \<Rightarrow> (string list \<times> string list) option" where
  "listDirectory rpfFiles rpfPath' directoryPath =
     (case rpfFiles rpfPath' of
        None \<Rightarrow> None
      | Some rpf \<Rightarrow>
          (case root (info rpf) of
             None \<Rightarrow> None
           | Some rootDir \<Rightarrow>
               (let es = allEntries (info rpf);
                    target =
                      (if directoryPath = [] \<or> directoryPath = ''/'' then Some rootDir
                       else (case findEntry (info rpf) directoryPath of
                               None \<Rightarrow> None
                             | Some entry \<Rightarrow>
                                 if kind (es ! entry) = DirectoryEntry then Some entry else None))
                in case target of
                     None \<Rightarrow> None
                   | Some targetDir \<Rightarrow>
                       Some (map (\<lambda>d. name (es ! d)) (directories (es ! targetDir)),
                             map (\<lambda>f. name (es ! f)) (files (es ! targetDir))))))"

text \<open>\<open>getFileContent\<close>; an exception of \<open>getFileData\<close> is logged and \<open>null\<close> is returned.\<close>

definition getFileContent :: "nodeLib \<Rightarrow> filesystem \<Rightarrow> registry \<Rightarrow> string \<Rightarrow> string \<Rightarrow> buffer option" where
  "getFileContent lib fs rpfFiles rpfPath' filePath' =
     (case rpfFiles rpfPath' of
        None \<Rightarrow> None
      | Some rpf \<Rightarrow>
          (case findEntry (info rpf) filePath' of
             None \<Rightarrow> None
           | Some entry \<Rightarrow>
               (let this = allEntries (info rpf) ! entry
                in if kind this = DirectoryEntry then None
                   else (case getFileData lib fs this (info rpf) of
                           Inl e \<Rightarrow> None
                         | Inr data \<Rightarrow> Some data))))"


section \<open>The archives of the end-to-end scenarios\<close>

text \<open>
  E1: the header \<open>{0x52504637, 2, 16, 0}\<close>; the directory record with name offset 0,
  entries index 1, entries count 1 and the sentinel \<open>0x7FFFFF00\<close> as its fourth word; the
  binary file record with name offset 9, on-disk size 5, payload block offset 1,
  uncompressed size 0 and encryption type 0; a names table of 16 bytes with the empty
  name at offset 0 and \<open>hi\<close> at offset 9; zeros up to byte 512; the payload \<open>HELLO\<close>.
\<close>

definition E1_header :: buffer where
  "E1_header = [0x37, 0x46, 0x50, 0x52,  2, 0, 0, 0,  16, 0, 0, 0,  0, 0, 0, 0]"

definition directoryRecord :: "byte \<Rightarrow> buffer" where
  "directoryRecord sentinelLow =
     [0, 0, 0, 0,  1, 0, 0, 0,  1, 0, 0, 0,  sentinelLow, 0xFF, 0xFF, 0x7F]"

definition E1_fileRecord :: buffer where
  "E1_fileRecord = [9, 0,  5, 0, 0,  1, 0, 0,  0, 0, 0,  0,  0, 0, 0, 0]"

definition E1_names :: buffer where
  "E1_names = [0, 0x72, 0x6F, 0x6F, 0x74, 0, 0, 0, 0, 0x68, 0x69, 0, 0, 0, 0, 0]"

definition HELLO :: buffer where
  "HELLO = [0x48, 0x45, 0x4C, 0x4C, 0x4F]"

definition E1_archive :: buffer where
  "E1_archive =
     E1_header @ directoryRecord 0x00 @ E1_fileRecord @ E1_names @ replicate 448 0 @ HELLO"

text \<open>E2: E1 with the sentinel of the directory record rewritten to \<open>0x7FFFFF01\<close>.\<close>

definition E2_archive :: buffer where
  "E2_archive =
     E1_header @ directoryRecord 0x01 @ E1_fileRecord @ E1_names @ replicate 448 0 @ HELLO"

text \<open>
  E1 with the word \<open>0x7FFFFF00\<close> at byte 8 of the directory record as well, which is
  where \<open>parseEntries\<close> looks for it.
\<close>

definition E1_variant_archive :: buffer where
  "E1_variant_archive =
     E1_header @ [0, 0, 0, 0,  1, 0, 0, 0,  0, 0xFF, 0xFF, 0x7F,  0, 0xFF, 0xFF, 0x7F]
     @ E1_fileRecord @ E1_names @ replicate 448 0 @ HELLO"

definition diskWith :: "buffer \<Rightarrow> filesystem" where
  "diskWith archive = [''e1.rpf'' \<mapsto> archive]"

definition e1Found :: foundRpf where
  "e1Found = \<lparr>rpfPath = ''e1.rpf'', baseName = ''e1.rpf'', relativePath = ''e1.rpf''\<rparr>"





text \<open>
  The words of section 4.1 of the specification for the block cipher primitive:
  \<open>floor(len / 16)\<close> blocks go through the block operation, the trailing
  \<open>len mod 16\<close> bytes are copied.
\<close>

fun ecbSpec :: "(buffer \<Rightarrow> buffer) \<Rightarrow> buffer \<Rightarrow> buffer" where
  "ecbSpec f data =
     (if length data < 16 then data else f (take 16 data) @ ecbSpec f (drop 16 data))"


text \<open>
  The reconstruction of section 4.3 of the specification, on the flag words as
  unsigned numbers.
\<close>

definition resourceSizeSpec :: "nat \<Rightarrow> nat \<Rightarrow> nat" where
  "resourceSizeSpec sysflags gfxflags =
     (let base = (if (sysflags div 2^27) mod 2 \<noteq> 0 then 0x10 else 0);
          vmem = (sysflags mod 2^11) * 2 ^ ((sysflags div 2^11) mod 2^4);
          pmem = ((sysflags div 2^15) mod 2^7) * 2 ^ ((sysflags div 2^25) mod 2^4);
          vgfx = (gfxflags mod 2^11) * 2 ^ ((gfxflags div 2^11) mod 2^4);
          pgfx = ((gfxflags div 2^15) mod 2^7) * 2 ^ ((gfxflags div 2^25) mod 2^4)
      in base + vmem + pmem + vgfx + pgfx)"

text \<open>
  Two resource records (the high bit of the word at byte 8 is set), both with payload
  block offset 1: one with the size field 5 and system flags \<open>0x80000000\<close>, one with
  the size field \<open>0xFFFFFF\<close> and system flags \<open>0x80000001\<close>; the graphics flags are 0.
\<close>

definition resourceRecord5 :: buffer where
  "resourceRecord5 = [0, 0,  5, 0, 0,  1, 0, 0,  0, 0, 0, 0x80,  0, 0, 0, 0]"

definition resourceRecordFFFFFF :: buffer where
  "resourceRecordFFFFFF = [0, 0,  0xFF, 0xFF, 0xFF,  1, 0, 0,  1, 0, 0, 0x80,  0, 0, 0, 0]"









section \<open>Nested archives: the words of the specification and an example\<close>









section \<open>Directory ranges\<close>





text \<open>
  A backing file of 64 bytes: the header \<open>{0x52504637, 0x80000003, 0, 0}\<close>, a record of
  zeros, and two equal directory records with name offset 0, entries index 3 and the
  word \<open>0x7FFFFF00\<close> at bytes 8 and 12.  All further records of the entries table lie
  beyond the end of the file.  \<open>overlapScan\<close> is the scan of that file.
\<close>

definition overlapCount :: nat where
  "overlapCount = 0x80000003"







text \<open>The entries that are read from the records of \<open>overlapArchive\<close>.\<close>

definition overlapRead :: "nat \<Rightarrow> RpfEntry" where
  "overlapRead k =
     (if k = 1 \<or> k = 2
      then (newEntry DirectoryEntry)\<lparr>entriesIndex := 3, entriesCount := 0x7FFFFF00\<rparr>
      else newEntry BinaryFileEntry)"


section \<open>Facts about the NG wrapper\<close>

declare aesLoop.simps [simp del]
declare ecbSpec.simps [simp del]












section \<open>Facts about the AES wrapper\<close>

lemma sint_toInt32: "x < 2^31 \<Longrightarrow> sint (toInt32 x) = int x"
  unfolding toInt32_def
  by (simp add: signed_of_nat signed_take_bit_int_eq_self)

lemma sar_below_2_31: "x < 2^31 \<Longrightarrow> s < 32 \<Longrightarrow> sar x s = int (x div 2^s)"
  by (simp add: sar_def sint_signed_drop_bit_eq sint_toInt32 drop_bit_eq_div zdiv_int)

lemma aesLoop_ecbSpec:
  assumes f: "\<And>b. length b = 16 \<Longrightarrow> length (f b) = 16"
  shows "length out = length data \<Longrightarrow> i \<le> (length data + 15) div 16 \<Longrightarrow>
     aesLoop f data (int ((length data + 15) div 16)) i out
       = take (16 * i) out @ ecbSpec f (drop (16 * i) data)"
proof (induction "(length data + 15) div 16 - i" arbitrary: i out)
  case 0
  then have ge: "\<not> i < (length data + 15) div 16" by simp
  then have "length data \<le> 16 * i" by simp
  with 0 ge show ?case
    by (subst aesLoop.simps) (simp add: ecbSpec.simps)
next
  case (Suc k)
  then have lt: "i < (length data + 15) div 16" by simp
  then have off: "16 * i < length data" by simp
  show ?case
  proof (cases "length data - i * 16 \<ge> 16")
    case True
    let ?blk = "take 16 (drop (i * 16) data)"
    let ?out = "copy (f ?blk) out (i * 16) 0 (length (f ?blk))"
    have lb: "length ?blk = 16" using True by simp
    have lo: "length ?out = length data"
      using True Suc.prems f[OF lb] by (simp add: copy_def Let_def)
    have "aesLoop f data (int ((length data + 15) div 16)) i out
          = aesLoop f data (int ((length data + 15) div 16)) (i + 1) ?out"
      using lt True by (subst aesLoop.simps) (simp add: Let_def min_def)
    also have "\<dots> = take (16 * (i + 1)) ?out @ ecbSpec f (drop (16 * (i + 1)) data)"
      using Suc.hyps(1)[of "i + 1" ?out] Suc.hyps(2) lo lt by simp
    also have "take (16 * (i + 1)) ?out = take (16 * i) out @ f ?blk"
      using True Suc.prems f[OF lb] by (simp add: copy_def Let_def mult.commute)
    also have "(take (16 * i) out @ f ?blk) @ ecbSpec f (drop (16 * (i + 1)) data)
          = take (16 * i) out @ ecbSpec f (drop (16 * i) data)"
      using True by (subst (2) ecbSpec.simps) (simp add: mult.commute add.commute)
    finally show ?thesis .
  next
    case False
    then have small: "length data - i * 16 < 16" by simp
    let ?out = "copy data out (i * 16) (i * 16) (i * 16 + min 16 (length data - i * 16))"
    have last: "(length data + 15) div 16 = i + 1" using small off lt by simp
    have lo: "?out = take (16 * i) out @ drop (16 * i) data"
      using small off Suc.prems by (simp add: copy_def Let_def min_def mult.commute)
    have "aesLoop f data (int ((length data + 15) div 16)) i out
          = aesLoop f data (int ((length data + 15) div 16)) (i + 1) ?out"
      using lt small by (subst aesLoop.simps) (simp add: Let_def min_def)
    also have "\<dots> = ?out"
      using last by (subst aesLoop.simps) simp
    also have "\<dots> = take (16 * i) out @ ecbSpec f (drop (16 * i) data)"
      using small lo by (subst ecbSpec.simps) (simp add: mult.commute)
    finally show ?thesis .
  qed
qed

lemma length_ecbSpec:
  "(\<And>b. length b = 16 \<Longrightarrow> length (f b) = 16) \<Longrightarrow> length (ecbSpec f data) = length data"
proof (induction f data rule: ecbSpec.induct)
  case (1 f data)
  then show ?case by (subst ecbSpec.simps) simp
qed

lemma ecbSpec_inverse:
  assumes len: "\<And>b. length b = 16 \<Longrightarrow> length (f b) = 16"
    and inv: "\<And>b. length b = 16 \<Longrightarrow> g (f b) = b"
  shows "ecbSpec g (ecbSpec f data) = data"
proof (induction "length data" arbitrary: data rule: less_induct)
  case less
  show ?case
  proof (cases "length data < 16")
    case True
    then show ?thesis by (simp add: ecbSpec.simps)
  next
    case False
    have eq: "ecbSpec f data = f (take 16 data) @ ecbSpec f (drop 16 data)"
      using False by (subst ecbSpec.simps) simp
    have l16: "length (f (take 16 data)) = 16" using False by (simp add: len)
    have step: "ecbSpec g (f (take 16 data) @ ecbSpec f (drop 16 data))
            = g (f (take 16 data)) @ ecbSpec g (ecbSpec f (drop 16 data))"
      using l16 by (subst ecbSpec.simps) simp
    have ih: "ecbSpec g (ecbSpec f (drop 16 data)) = drop 16 data"
      using False by (intro less) simp
    show ?thesis
      using False by (simp add: eq step ih inv)
  qed
qed

text \<open>
  Below \<open>2^31 - 15\<close> bytes the wrappers are the primitive of section 4.1: full blocks
  through the block operation, the tail copied, the length kept, and \<open>encryptAES\<close> after
  \<open>decryptAES\<close> the identity when the two block operations are inverse to each other.
\<close>

lemma decryptAES_is_ecbSpec:
  assumes "length data + 15 < 2^31"
    and "\<And>b. length b = 16 \<Longrightarrow> length (aes_decrypt lib PC_AES_KEY b) = 16"
  shows "decryptAES lib data = ecbSpec (aes_decrypt lib PC_AES_KEY) data"
  using assms aesLoop_ecbSpec[of "aes_decrypt lib PC_AES_KEY" "alloc (length data)" data 0]
  by (simp add: decryptAES_def sar_below_2_31 alloc_def)

lemma encryptAES_is_ecbSpec:
  assumes "length data + 15 < 2^31"
    and "\<And>b. length b = 16 \<Longrightarrow> length (aes_encrypt lib PC_AES_KEY b) = 16"
  shows "encryptAES lib data = ecbSpec (aes_encrypt lib PC_AES_KEY) data"
  using assms aesLoop_ecbSpec[of "aes_encrypt lib PC_AES_KEY" "alloc (length data)" data 0]
  by (simp add: encryptAES_def sar_below_2_31 alloc_def)

lemma aes_round_trip_below_2GiB:
  assumes small: "length data + 15 < 2^31"
    and dec: "\<And>b. length b = 16 \<Longrightarrow> length (aes_decrypt lib PC_AES_KEY b) = 16"
    and enc: "\<And>b. length b = 16 \<Longrightarrow> length (aes_encrypt lib PC_AES_KEY b) = 16"
    and inv: "\<And>b. length b = 16 \<Longrightarrow> aes_encrypt lib PC_AES_KEY (aes_decrypt lib PC_AES_KEY b) = b"
  shows "length (decryptAES lib data) = length data
       \<and> length (encryptAES lib data) = length data
       \<and> encryptAES lib (decryptAES lib data) = data"
proof -
  have d: "decryptAES lib data = ecbSpec (aes_decrypt lib PC_AES_KEY) data"
    using small dec by (rule decryptAES_is_ecbSpec)
  have ld: "length (decryptAES lib data) = length data"
    using dec by (simp add: d length_ecbSpec)
  have e: "encryptAES lib (decryptAES lib data)
             = ecbSpec (aes_encrypt lib PC_AES_KEY) (decryptAES lib data)"
    using small enc ld by (intro encryptAES_is_ecbSpec) simp_all
  have le: "length (encryptAES lib data) = length data"
    using small enc by (simp add: encryptAES_is_ecbSpec length_ecbSpec)
  show ?thesis
    using ld le e d ecbSpec_inverse[of "aes_decrypt lib PC_AES_KEY" "aes_encrypt lib PC_AES_KEY" data]
      dec inv by simp
qed

text \<open>
  C7.  For a buffer of \<open>2^31\<close> bytes \<open>data.length + 15 >> 4\<close> is negative, the loop does
  not run, and \<open>decryptAES\<close> returns the zeros of \<open>Buffer.alloc\<close>; so does \<open>encryptAES\<close>,
  and \<open>encryptAES\<close> after \<open>decryptAES\<close> is not the identity on a buffer of \<open>2^31\<close> bytes 1.
\<close>

theorem decryptAES_2GiB_returns_zeros:
  "sar (length (replicate 2147483648 (1 :: byte)) + 15) 4 = - 134217728
   \<and> decryptAES lib (replicate 2147483648 1) = replicate 2147483648 0
   \<and> encryptAES lib (decryptAES lib (replicate 2147483648 1)) = replicate 2147483648 0
   \<and> encryptAES lib (decryptAES lib (replicate 2147483648 1)) \<noteq> replicate 2147483648 1"
  by (simp add: decryptAES_def encryptAES_def sar_def toInt32_def alloc_def aesLoop.simps)

section \<open>The scenarios E1 and E2\<close>

lemmas scenario_defs =
  E1_archive_def E2_archive_def E1_variant_archive_def E1_header_def directoryRecord_def
  E1_fileRecord_def E1_names_def HELLO_def diskWith_def e1Found_def

lemmas name_defs =
  readName_def toString_def toLowerCase_def toLowerChar_def char_of_def bit_Suc_0_iff Let_def

lemmas open_defs =
  readTables_def newRpfFile_def readSync_def copy_def alloc_def getUint32_def
  getBigUint64_def leNat_def bindE_def NONE_def AES_def NG_def parseEntries_def
  readEntry_def readBinary_def readDirectory_def toInt32_def

text \<open>
  Read as a directory record, the first record of E1 is accepted with the range
  \<open>[1, 2)\<close>, and the first record of E2 is refused for its sentinel.
\<close>

lemma E1_record_as_directory:
  "readDirectory (directoryRecord 0x00 @ E1_fileRecord) 0
     = Inr ((newEntry DirectoryEntry)\<lparr>nameOffset := 0, entriesIndex := 1, entriesCount := 1\<rparr>)"
  by (simp add: scenario_defs open_defs)

lemma E2_record_as_directory:
  "readDirectory (directoryRecord 0x01 @ E1_fileRecord) 0 = Inl InvalidDirectoryEntry"
  by (simp add: scenario_defs open_defs)

text \<open>The names table of E1 holds the empty name at offset 0 and \<open>hi\<close> at offset 9.\<close>

lemma E1_names_read: "readName E1_names 0 = [] \<and> readName E1_names 9 = ''hi''"
  by (simp add: E1_names_def name_defs)

text \<open>
  With \<open>0x7FFFFF00\<close> at byte 8 the record is read as a directory, of \<open>0x7FFFFF00\<close>
  entries from index 1 on; the archive has two entries, and \<open>buildHierarchy\<close> throws
  on \<open>this.allEntries[2]\<close>.
\<close>

lemma E1_variant_scan_throws:
  "scanStructure lib (diskWith E1_variant_archive) (Suc depth) ''e1.rpf'' ''e1.rpf'' 0
     = Some (Inl TypeError)"
  by (simp add: scenario_defs open_defs name_defs linkChildren.simps linkChild_def newEntry_def
      upt_rec)

text \<open>
  C1.  The scan of E1 throws "Invalid binary file entry": the class of a record is
  chosen by its third word, which is the entries count 1 of the directory record, so the
  record is read as a binary file and the sentinel is taken for the high half of its
  second 64-bit word.  The archive does not reach the registry; \<open>listDirectory\<close> and
  \<open>getFileContent\<close> return \<open>null\<close>.
\<close>

theorem E1_scan_throws:
  "scanStructure lib (diskWith E1_archive) (Suc depth) ''e1.rpf'' ''e1.rpf'' 0
     = Some (Inl InvalidBinaryEntry)
   \<and> scanForRpfFiles lib (diskWith E1_archive) (Suc depth) [e1Found] Map.empty = Some Map.empty
   \<and> listDirectory Map.empty ''e1.rpf'' '''' = None
   \<and> getFileContent lib (diskWith E1_archive) Map.empty ''e1.rpf'' ''hi'' = None"
  by (simp add: scenario_defs open_defs listDirectory_def getFileContent_def)

text \<open>
  C3.  The scan of E2 throws "Invalid binary file entry" as well, for the same reason;
  the check of the sentinel in \<open>RpfDirectoryEntry.read\<close> is not reached.
\<close>

theorem E2_scan_throws_binary_error:
  "scanStructure lib (diskWith E2_archive) (Suc depth) ''e1.rpf'' ''e1.rpf'' 0
     = Some (Inl InvalidBinaryEntry)"
  by (simp add: scenario_defs open_defs)


section \<open>Facts about the records\<close>

lemma leNat_Nil [simp]: "leNat [] = 0"
  by (simp add: leNat_def)

lemma leNat_Cons [simp]: "leNat (b # bs) = unat b + 256 * leNat bs"
  by (simp add: leNat_def)

lemma leNat_zeros [simp]: "leNat (replicate n 0) = 0"
  by (induction n) simp_all

lemma leNat_bound: "leNat bs < 256 ^ length bs"
proof (induction bs)
  case Nil
  then show ?case by simp
next
  case (Cons b bs)
  have "unat b < 256" using unsigned_less[of b] by simp
  then show ?case using Cons by simp
qed

lemma field64:
  assumes "x < 2^64"
  shows "unat (drop_bit k (word_of_nat x :: 64 word) AND mask m) = x div 2^k mod 2^m"
proof -
  have "unat (drop_bit k (word_of_nat x :: 64 word) AND mask m)
          = take_bit m (drop_bit k (unat (word_of_nat x :: 64 word)))"
    by (simp only: flip: take_bit_eq_mask) (simp only: unsigned_take_bit_eq unat_drop_bit_eq)
  also have "unat (word_of_nat x :: 64 word) = x"
    using assms by (simp add: unat_of_nat)
  finally show ?thesis by (simp add: take_bit_eq_mod drop_bit_eq_div)
qed

lemma field64_low:
  assumes "x < 2^64"
  shows "unat ((word_of_nat x :: 64 word) AND mask m) = x mod 2^m"
  using field64[OF assms, of 0 m] by simp

lemma masks64:
  "(0xFFFF :: 64 word) = mask 16" "(0xFFFFFF :: 64 word) = mask 24"
  "(0xFF :: 64 word) = mask 8" "(0xFFFFFFFF :: 64 word) = mask 32"
  by (simp_all add: mask_eq_exp_minus_1)

lemma high64:
  assumes "x < 2^64"
  shows "(drop_bit 32 (word_of_nat x :: 64 word) = 0) = (x div 2^32 = 0)"
proof -
  have "unat (drop_bit 32 (word_of_nat x :: 64 word)) = x div 2^32"
    using assms by (simp only: unat_drop_bit_eq unat_of_nat) (simp add: drop_bit_eq_div)
  then show ?thesis
    by (metis unat_eq_0)
qed

lemma highbit32:
  assumes "h < 2^32"
  shows "((toInt32 h AND 0x80000000) = 0) = (h < 2^31)"
proof -
  have m: "(0x80000000 :: 32 word) = 2 ^ 31" by simp
  have "((word_of_nat h :: 32 word) AND 2 ^ 31 = 0) = (\<not> bit (word_of_nat h :: 32 word) 31)"
    by (rule and_exp_eq_0_iff_not_bit)
  also have "\<dots> = (\<not> bit h 31)"
    by (simp add: bit_simps)
  also have "\<dots> = (h div 2^31 = 0)"
  proof -
    have "h div 2^31 < 2" using assms by simp
    then show ?thesis by (auto simp add: bit_iff_odd elim: oddE)
  qed
  also have "\<dots> = (h < 2^31)" by (simp add: div_eq_0_iff)
  finally show ?thesis unfolding toInt32_def m .
qed

lemma leNat4_bound: "length bs = 4 \<Longrightarrow> leNat bs < 2^32"
  using leNat_bound[of bs] by simp

lemma leNat8_bound: "length bs = 8 \<Longrightarrow> leNat bs < 2^64"
  using leNat_bound[of bs] by simp


text \<open>
  C8.  A 16-byte record inside the buffer whose word at byte 8 is not \<open>0x7FFFFF00\<close> and
  has its high bit clear is read as a binary file: with \<open>d1\<close> and \<open>d2\<close> the two
  little-endian 64-bit words, the read throws "Invalid binary file entry" exactly when
  the high 32 bits of \<open>d2\<close> are not zero, and otherwise the name offset is \<open>d1[0..16)\<close>,
  the on-disk size \<open>d1[16..40)\<close>, the payload block offset \<open>d1[40..64)\<close>, the
  uncompressed size \<open>d2[0..24)\<close> and the encryption type \<open>d2[24..32)\<close>.
\<close>

theorem binary_record_layout:
  assumes fits: "offset + 16 \<le> length view"
    and notDirectory: "leNat (take 4 (drop (offset + 8) view)) \<noteq> 0x7FFFFF00"
    and highBitClear: "leNat (take 4 (drop (offset + 8) view)) < 2^31"
  shows "readEntry view offset =
     (let d1 = leNat (take 8 (drop offset view));
          d2 = leNat (take 8 (drop (offset + 8) view))
      in if d2 div 2^32 \<noteq> 0 then Inl InvalidBinaryEntry
         else Inr ((newEntry BinaryFileEntry)
                     \<lparr>nameOffset := d1 mod 2^16,
                      fileSize := d1 div 2^16 mod 2^24,
                      fileOffset := d1 div 2^40 mod 2^24,
                      fileUncompressedSize := d2 mod 2^24,
                      encryptionType := d2 div 2^24 mod 2^8,
                      isEncrypted := (d2 div 2^24 mod 2^8 \<noteq> 0)\<rparr>))"
proof -
  let ?h2 = "leNat (take 4 (drop (offset + 8) view))"
  let ?d1 = "leNat (take 8 (drop offset view))"
  let ?d2 = "leNat (take 8 (drop (offset + 8) view))"
  have h2: "?h2 < 2^32" using fits by (intro leNat4_bound) simp
  have d1: "?d1 < 2^64" using fits by (intro leNat8_bound) simp
  have d2: "?d2 < 2^64" using fits by (intro leNat8_bound) simp
  have cls: "readEntry view offset = readBinary view offset"
    using fits notDirectory highBitClear highbit32[OF h2]
    by (simp add: readEntry_def getUint32_def bindE_def)
  show ?thesis
    unfolding cls readBinary_def masks64
    using fits high64[OF d2]
    by (simp add: getBigUint64_def bindE_def Let_def field64[OF d1] field64[OF d2]
        field64_low[OF d1] field64_low[OF d2])
qed

theorem binary_record_layout_witness:
  "leNat (take 4 (drop 8 E1_fileRecord)) = 0
   \<and> readEntry E1_fileRecord 0
       = Inr ((newEntry BinaryFileEntry)\<lparr>nameOffset := 9, fileSize := 5, fileOffset := 1\<rparr>)
   \<and> leNat (take 4 (drop 8 (directoryRecord 0))) = 1
   \<and> readEntry (directoryRecord 0) 0 = Inl InvalidBinaryEntry"
proof -
  have a: "leNat (take 4 (drop 8 E1_fileRecord)) = 0"
    and b: "leNat (take 4 (drop 8 (directoryRecord 0))) = 1"
    by (simp_all add: E1_fileRecord_def directoryRecord_def)
  have "readEntry E1_fileRecord 0
       = Inr ((newEntry BinaryFileEntry)\<lparr>nameOffset := 9, fileSize := 5, fileOffset := 1\<rparr>)"
    using binary_record_layout[of 0 E1_fileRecord]
    by (simp add: E1_fileRecord_def newEntry_def)
  moreover have "readEntry (directoryRecord 0) 0 = Inl InvalidBinaryEntry"
    using binary_record_layout[of 0 "directoryRecord 0"]
    by (simp add: directoryRecord_def)
  ultimately show ?thesis using a b by simp
qed

section \<open>Facts about reads and the data pipeline\<close>




















section \<open>Facts about resource records\<close>

lemma sint_small: "unat w < 2^31 \<Longrightarrow> sint (w::32 word) = int (unat w)"
proof -
  assume a: "unat w < 2^31"
  have "int (unat w) < int (2^31)" using a by (simp only: of_nat_less_iff)
  then have hi: "uint w < 2^31" by simp
  have lo: "- (2^31) \<le> uint w"
    by (rule order_trans[OF _ uint_ge_0]) simp
  have "signed_take_bit 31 (uint w) = uint w"
    using lo hi by (rule signed_take_bit_int_eq_self)
  moreover have "sint w = signed_take_bit 31 (uint w)"
    by (simp only: sint_uint) simp
  ultimately show ?thesis by simp
qed

lemma sar_mask:
  "k + m \<le> 32 \<Longrightarrow> signed_drop_bit k (w::32 word) AND mask m = take_bit m (drop_bit k w)"
  by (rule bit_word_eqI) (auto simp add: bit_simps)

lemma unat_field32:
  assumes "x < 2^32"
  shows "unat (take_bit m (drop_bit k (toInt32 x))) = x div 2^k mod 2^m"
proof -
  have "unat (take_bit m (drop_bit k (word_of_nat x :: 32 word)))
          = take_bit m (drop_bit k (unat (word_of_nat x :: 32 word)))"
    by (simp only: unsigned_take_bit_eq unat_drop_bit_eq)
  also have "unat (word_of_nat x :: 32 word) = x"
    using assms by (simp add: unat_of_nat)
  finally show ?thesis by (simp add: toInt32_def take_bit_eq_mod drop_bit_eq_div)
qed

lemma shl_small:
  assumes a: "unat a < 2^11" and b: "unat b < 2^4"
  shows "shl a b = int (unat a * 2 ^ unat b)"
proof -
  have pw: "(2::nat) ^ unat b \<le> 2 ^ 15"
    using b by (intro power_increasing) simp_all
  have "unat a * 2 ^ unat b \<le> 2^11 * 2^15"
    using a pw by (intro mult_mono) simp_all
  then have prod: "unat a * 2 ^ unat b < 2^31" by simp
  have "unat (push_bit (unat b) a) = take_bit 32 (push_bit (unat b) (unat a))"
    by (simp add: unsigned_push_bit_eq)
  also have "\<dots> = unat a * 2 ^ unat b"
    using prod by (simp add: push_bit_eq_mult take_bit_eq_mod)
  finally have u: "unat (push_bit (unat b) a) = unat a * 2 ^ unat b" .
  have "unat b mod 32 = unat b" using b by simp
  then show ?thesis
    unfolding shl_def using sint_small[of "push_bit (unat b) a"] u prod by simp
qed

lemma masks32:
  "(0x7FF :: 32 word) = mask 11" "(0xF :: 32 word) = mask 4"
  "(0x7F :: 32 word) = mask 7" "(0x1 :: 32 word) = mask 1"
  by (simp_all add: mask_eq_exp_minus_1)

lemma field32:
  assumes "x < 2^32" and "k + m \<le> 32"
  shows "unat (signed_drop_bit k (toInt32 x) AND mask m) = x div 2^k mod 2^m"
  using sar_mask[OF assms(2), of "toInt32 x"] unat_field32[OF assms(1), of m k] by simp

lemma field32_low:
  assumes "x < 2^32"
  shows "unat (toInt32 x AND mask m) = x mod 2^m"
  using unat_field32[OF assms(1), of m 0] by (simp add: take_bit_eq_mask)

lemma mod_2_7_bound: "x mod 2^7 < (2::nat)^11"
  using mod_less_divisor[of "2^7" x] by (simp del: mod_less_divisor)

lemma base_flag:
  assumes s: "sf < 2^32"
  shows "(signed_drop_bit 27 (toInt32 sf) AND mask 1 \<noteq> 0) = ((sf div 2^27) mod 2 \<noteq> 0)"
proof -
  have "unat (signed_drop_bit 27 (toInt32 sf) AND mask 1) = sf div 2^27 mod 2^1"
    using s by (intro field32) simp_all
  then have "(unat (signed_drop_bit 27 (toInt32 sf) AND mask 1) = 0) = (sf div 2^27 mod 2 = 0)"
    by simp
  then show ?thesis by (simp only: unat_eq_0)
qed

lemma virtual_size:
  assumes x: "x < 2^32"
  shows "shl (toInt32 x AND mask 11) (signed_drop_bit 11 (toInt32 x) AND mask 4)
           = int ((x mod 2^11) * 2 ^ ((x div 2^11) mod 2^4))"
proof -
  have a: "unat (toInt32 x AND mask 11) = x mod 2^11" using x by (rule field32_low)
  have b: "unat (signed_drop_bit 11 (toInt32 x) AND mask 4) = x div 2^11 mod 2^4"
    using x by (intro field32) simp_all
  have c: "x mod 2^11 < 2^11" "x div 2^11 mod 2^4 < 2^4" by simp_all
  show ?thesis
    using shl_small[of "toInt32 x AND mask 11" "signed_drop_bit 11 (toInt32 x) AND mask 4"] c
    by (simp only: a b)
qed

lemma physical_size:
  assumes x: "x < 2^32"
  shows "shl (signed_drop_bit 15 (toInt32 x) AND mask 7) (signed_drop_bit 25 (toInt32 x) AND mask 4)
           = int (((x div 2^15) mod 2^7) * 2 ^ ((x div 2^25) mod 2^4))"
proof -
  have a: "unat (signed_drop_bit 15 (toInt32 x) AND mask 7) = x div 2^15 mod 2^7"
    using x by (intro field32) simp_all
  have b: "unat (signed_drop_bit 25 (toInt32 x) AND mask 4) = x div 2^25 mod 2^4"
    using x by (intro field32) simp_all
  have c: "x div 2^25 mod 2^4 < 2^4" by simp
  show ?thesis
    using shl_small[of "signed_drop_bit 15 (toInt32 x) AND mask 7"
        "signed_drop_bit 25 (toInt32 x) AND mask 4"] mod_2_7_bound[of "x div 2^15"] c
    by (simp only: a b)
qed

lemma nat_sum5:
  "nat ((if c then 0x10 else 0) + int a + int b + int d + int e)
     = (if c then 0x10 else 0) + a + b + d + e"
  by (cases c) simp_all

text \<open>
  On flag words below \<open>2^32\<close> the signed 32-bit arithmetic of \<open>getResourceSize\<close>
  computes the reconstruction of section 4.3.
\<close>

lemma getResourceSize_spec:
  assumes s: "sf < 2^32" and g: "gf < 2^32"
  shows "getResourceSize sf gf = resourceSizeSpec sf gf"
proof -
  have "getResourceSize sf gf =
     nat ((if (sf div 2^27) mod 2 \<noteq> 0 then 0x10 else 0)
          + int ((sf mod 2^11) * 2 ^ ((sf div 2^11) mod 2^4))
          + int (((sf div 2^15) mod 2^7) * 2 ^ ((sf div 2^25) mod 2^4))
          + int ((gf mod 2^11) * 2 ^ ((gf div 2^11) mod 2^4))
          + int (((gf div 2^15) mod 2^7) * 2 ^ ((gf div 2^25) mod 2^4)))"
    unfolding getResourceSize_def masks32 Let_def
    by (simp only: base_flag[OF s] virtual_size[OF s] virtual_size[OF g]
        physical_size[OF s] physical_size[OF g])
  also have "\<dots> = resourceSizeSpec sf gf"
    unfolding resourceSizeSpec_def Let_def by (rule nat_sum5)
  finally show ?thesis .
qed

lemma readResource_fields:
  assumes fits: "offset + 16 \<le> length view"
  shows "readResource view offset =
     (let d1 = leNat (take 8 (drop offset view));
          d2 = leNat (take 8 (drop (offset + 8) view));
          field = d1 div 2^16 mod 2^24;
          sf = d2 mod 2^32;
          gf = d2 div 2^32 mod 2^32;
          e = (newEntry ResourceFileEntry)
                \<lparr>nameOffset := d1 mod 2^16, fileSize := field,
                 fileOffset := d1 div 2^40 mod 2^24,
                 systemFlags := sf, graphicsFlags := gf\<rparr>
      in if field = 0xFFFFFF
         then Inr (e\<lparr>fileSize := resourceSizeSpec sf gf,
                      fileUncompressedSize := resourceSizeSpec sf gf\<rparr>)
         else Inr e)"
proof -
  let ?d1 = "leNat (take 8 (drop offset view))"
  let ?d2 = "leNat (take 8 (drop (offset + 8) view))"
  have d1: "?d1 < 2^64" using fits by (intro leNat8_bound) simp
  have d2: "?d2 < 2^64" using fits by (intro leNat8_bound) simp
  have sf: "?d2 mod 2^32 < 2^32" and gf: "?d2 div 2^32 mod 2^32 < 2^32" by simp_all
  show ?thesis
    unfolding readResource_def masks64
    using fits getResourceSize_spec[OF sf gf]
    by (simp add: getBigUint64_def bindE_def Let_def field64[OF d1] field64[OF d2]
        field64_low[OF d1] field64_low[OF d2])
qed

text \<open>
  C5, as the code has it.  A 16-byte record inside the buffer whose word at byte 8 has
  its high bit set is read as a resource file, with the low and the high word of \<open>d2\<close>
  as system and graphics flags.  When the size field \<open>d1[16..40)\<close> is \<open>0xFFFFFF\<close>, the
  on-disk size is the reconstruction of section 4.3 from the two flag words and the
  uncompressed size equals it; for every other size field the on-disk size is the field
  and the uncompressed size stays 0.  In both cases \<open>getFileData\<close> returns the on-disk
  size bytes read at the payload offset, neither decrypted nor inflated.
\<close>

theorem resource_record_sizes:
  assumes fits: "offset + 16 \<le> length view"
    and highBitSet: "2^31 \<le> leNat (take 4 (drop (offset + 8) view))"
  shows "\<exists>e. readEntry view offset = Inr e
           \<and> kind e = ResourceFileEntry
           \<and> (let d1 = leNat (take 8 (drop offset view));
                   d2 = leNat (take 8 (drop (offset + 8) view));
                   field = d1 div 2^16 mod 2^24
               in systemFlags e = d2 mod 2^32
                \<and> graphicsFlags e = d2 div 2^32 mod 2^32
                \<and> (if field = 0xFFFFFF
                    then fileSize e = resourceSizeSpec (systemFlags e) (graphicsFlags e)
                       \<and> fileUncompressedSize e = fileSize e
                    else fileSize e = field \<and> fileUncompressedSize e = 0))
           \<and> (\<forall>lib fs rpf bytes. fs (filePath rpf) = Some bytes \<longrightarrow>
                 getFileData lib fs e rpf
                   = Inr (readSync bytes (fileSize e) (startPos rpf + fileOffset e * 512)))"
proof -
  let ?h2 = "leNat (take 4 (drop (offset + 8) view))"
  have h2: "?h2 < 2^32" using fits by (intro leNat4_bound) simp
  have nd: "?h2 \<noteq> 0x7FFFFF00" using highBitSet by simp
  have hb: "\<not> ?h2 < 2^31" using highBitSet by simp
  have cls: "readEntry view offset = readResource view offset"
    using fits nd hb highbit32[OF h2]
    by (simp add: readEntry_def getUint32_def bindE_def)
  show ?thesis
    unfolding cls readResource_fields[OF fits]
    by (auto simp add: Let_def newEntry_def getFileData_def)
qed

theorem resource_record_sizes_witness:
  "leNat (take 4 (drop 8 resourceRecordFFFFFF)) = 0x80000001
   \<and> resourceSizeSpec 0x80000001 0 = 1
   \<and> fileSize (projr (readEntry resourceRecordFFFFFF 0)) = 1
   \<and> fileUncompressedSize (projr (readEntry resourceRecordFFFFFF 0)) = 1
   \<and> leNat (take 4 (drop 8 resourceRecord5)) = 0x80000000
   \<and> fileSize (projr (readEntry resourceRecord5 0)) = 5
   \<and> fileUncompressedSize (projr (readEntry resourceRecord5 0)) = 0"
  using resource_record_sizes[of 0 resourceRecordFFFFFF] resource_record_sizes[of 0 resourceRecord5]
  by (auto simp add: resourceRecordFFFFFF_def resourceRecord5_def resourceSizeSpec_def Let_def)

text \<open>
  The claim C5 as stated fails: the resource record with the size field 5 is read with
  the on-disk size 5 and the uncompressed size 0.
\<close>

theorem resource_uncompressed_size_counterexample:
  "\<not> isl (readEntry resourceRecord5 0)
   \<and> kind (projr (readEntry resourceRecord5 0)) = ResourceFileEntry
   \<and> fileSize (projr (readEntry resourceRecord5 0)) = 5
   \<and> fileUncompressedSize (projr (readEntry resourceRecord5 0)) = 0"
  by (simp add: resourceRecord5_def readEntry_def readResource_def getUint32_def
      getBigUint64_def bindE_def toInt32_def newEntry_def)


section \<open>Facts about nested archives and the registry\<close>




lemma addNestedRpfs_no_children:
  "children child = [] \<Longrightarrow> addNestedRpfs child p reg = reg"
  by (cases child) simp



text \<open>
  The children of a scanned archive with a root are what the loop returns for the
  entries that \<open>findRpfFiles\<close> finds from the root, and the archive starts where the scan
  was asked to start.
\<close>

lemma scanStructure_children:
  assumes "scanStructure lib fs (Suc depth) filePath' fileName' startPos'
             = Some (Inr (RpfFile this nested))"
    and "root this = Some dir"
  shows "\<exists>rpfFiles. findRpfFiles depth (allEntries this) dir = Some rpfFiles
           \<and> scanNestedLoop lib fs depth this rpfFiles = Some nested"
  using assms by (auto split: sum.splits option.splits)








section \<open>Facts about the hierarchy\<close>

declare linkChildren.simps [simp del]
declare parseLoop.simps [simp del]































section \<open>The archive with two directories of one range\<close>







lemma overlap_nth: "k < overlapCount \<Longrightarrow> map overlapRead [0..<overlapCount] ! k = overlapRead k"
  by simp











end
